theory Spec2Isabelle
  imports Main
begin

section \<open>Identifier normalisation (repositories.py)\<close>

text \<open>
  Python strings are modelled as \<^typ>\<open>string\<close>; a character is read as its code point
  in the range 0..255.  \<open>str.strip()\<close> removes leading and trailing white space,
  \<open>str.lower()\<close> maps the upper-case letters of that range to their lower-case forms,
  and \<open>re.sub(r"[^0-9a-z]+", "", s)\<close> deletes every maximal run of characters outside
  the class, which leaves exactly the characters of the class in their order.
\<close>

definition is_space :: "char \<Rightarrow> bool" where
  "is_space c =
     (let n = (of_char c :: nat)
      in (9 \<le> n \<and> n \<le> 13) \<or> (28 \<le> n \<and> n \<le> 32) \<or> n = 133 \<or> n = 160)"

definition strip :: "string \<Rightarrow> string" where
  "strip s = rev (dropWhile is_space (rev (dropWhile is_space s)))"

definition lower_char :: "char \<Rightarrow> char" where
  "lower_char c =
     (let n = (of_char c :: nat)
      in if (65 \<le> n \<and> n \<le> 90) \<or> (192 \<le> n \<and> n \<le> 222 \<and> n \<noteq> 215)
         then char_of (n + 32) else c)"

definition lower :: "string \<Rightarrow> string" where
  "lower s = map lower_char s"

definition in_class :: "char \<Rightarrow> bool" where
  "in_class c =
     (let n = (of_char c :: nat)
      in (48 \<le> n \<and> n \<le> 57) \<or> (97 \<le> n \<and> n \<le> 122))"

definition re_sub_outside_class :: "string \<Rightarrow> string" where
  "re_sub_outside_class s = filter in_class s"

fun normalise_identifier :: "string option \<Rightarrow> string" where
  "normalise_identifier None = []"
| "normalise_identifier (Some v) = re_sub_outside_class (lower (strip v))"

subsection \<open>The normaliser on arbitrary code points\<close>

text \<open>
  A Python string is a list of code points.  Below U+0080 the behaviour of \<open>str.strip\<close>
  and \<open>str.lower\<close> is fixed: the white space is U+0009..U+000D and U+001C..U+0020, and
  \<open>A\<close>..\<open>Z\<close> become \<open>a\<close>..\<open>z\<close>.  From U+0080 on it is read from the Unicode tables of
  the Python run time, which are parameters here: \<open>space_beyond\<close> says whether a code
  point is white space, \<open>lower_beyond\<close> gives the code points that replace one code point
  in lower case, given the text before and after it (capital sigma is replaced according
  to its context, and a replacement may be longer than one code point, or a letter of
  \<open>a\<close>..\<open>z\<close>, as for the Kelvin sign).  The class \<open>[0-9a-z]\<close> of the pattern is U+0030..U+0039
  and U+0061..U+007A.
\<close>

definition cp_is_space :: "(nat \<Rightarrow> bool) \<Rightarrow> nat \<Rightarrow> bool" where
  "cp_is_space space_beyond n =
     (if n < 128 then (9 \<le> n \<and> n \<le> 13) \<or> (28 \<le> n \<and> n \<le> 32) else space_beyond n)"

definition cp_strip :: "(nat \<Rightarrow> bool) \<Rightarrow> nat list \<Rightarrow> nat list" where
  "cp_strip space_beyond s =
     rev (dropWhile (cp_is_space space_beyond) (rev (dropWhile (cp_is_space space_beyond) s)))"

fun cp_lower ::
  "(nat list \<Rightarrow> nat \<Rightarrow> nat list \<Rightarrow> nat list) \<Rightarrow> nat list \<Rightarrow> nat list \<Rightarrow> nat list" where
  "cp_lower lower_beyond pre [] = []"
| "cp_lower lower_beyond pre (n # post) =
     (if n < 128 then [if 65 \<le> n \<and> n \<le> 90 then n + 32 else n]
      else lower_beyond pre n post)
     @ cp_lower lower_beyond (pre @ [n]) post"

definition cp_in_class :: "nat \<Rightarrow> bool" where
  "cp_in_class n = ((48 \<le> n \<and> n \<le> 57) \<or> (97 \<le> n \<and> n \<le> 122))"

fun normalise_code_points ::
  "(nat \<Rightarrow> bool) \<Rightarrow> (nat list \<Rightarrow> nat \<Rightarrow> nat list \<Rightarrow> nat list) \<Rightarrow> nat list option \<Rightarrow> nat list" where
  "normalise_code_points space_beyond lower_beyond None = []"
| "normalise_code_points space_beyond lower_beyond (Some v) =
     filter cp_in_class (cp_lower lower_beyond [] (cp_strip space_beyond v))"

text \<open>
  The tables for the code points below U+0100, and the code points of a \<^typ>\<open>string\<close>:
  \<open>normalise_identifier\<close> above is \<open>normalise_code_points\<close> at these tables.
\<close>

definition latin1_space :: "nat \<Rightarrow> bool" where
  "latin1_space n = (n = 133 \<or> n = 160)"

definition latin1_lower :: "nat list \<Rightarrow> nat \<Rightarrow> nat list \<Rightarrow> nat list" where
  "latin1_lower pre n post = [if 192 \<le> n \<and> n \<le> 222 \<and> n \<noteq> 215 then n + 32 else n]"

definition code_points :: "string \<Rightarrow> nat list" where
  "code_points s = map of_char s"

section \<open>Domain model (models.py)\<close>

text \<open>
  An \<open>OrderedDict\<close> is an association list in insertion order; \<open>setdefault\<close> appends
  the entry only when the key is absent and otherwise leaves the dictionary as it is.
\<close>

type_synonym ('k, 'v) odict = "('k \<times> 'v) list"

definition setdefault :: "'k \<Rightarrow> 'v \<Rightarrow> ('k, 'v) odict \<Rightarrow> ('k, 'v) odict" where
  "setdefault k v d = (if k \<in> fst ` set d then d else d @ [(k, v)])"

definition odict_keys :: "('k, 'v) odict \<Rightarrow> 'k list" where
  "odict_keys d = map fst d"

definition odict_values :: "('k, 'v) odict \<Rightarrow> 'v list" where
  "odict_values d = map snd d"

text \<open>\<open>(value or "").strip()\<close>, as in \<open>IdentifiableEntity.__init__\<close>.\<close>

definition clean :: "string option \<Rightarrow> string" where
  "clean v = strip (case v of None \<Rightarrow> [] | Some s \<Rightarrow> s)"

text \<open>
  Category and Area objects refer to each other, so they live in a store and are
  addressed by references: \<^typ>\<open>'c\<close> for Category objects, \<^typ>\<open>'a\<close> for Area
  objects.  Equality of references is object identity.
\<close>

record 'a category =
  c_id :: string
  c_name :: string
  c_quartiles :: "(string, bool) odict"
  c_areas :: "(string, 'a) odict"

record 'c area =
  a_id :: string
  a_name :: string
  a_categories :: "(string, 'c) odict"

record ('c, 'a) store =
  cat_obj :: "'c \<Rightarrow> 'a category"
  area_obj :: "'a \<Rightarrow> 'c area"

definition Category :: "string option \<Rightarrow> 'a category" where
  "Category category_id =
     \<lparr>c_id = clean category_id, c_name = clean category_id, c_quartiles = [], c_areas = []\<rparr>"

definition Area :: "string option \<Rightarrow> 'c area" where
  "Area area_id = \<lparr>a_id = clean area_id, a_name = clean area_id, a_categories = []\<rparr>"

definition Category_getId :: "('c, 'a) store \<Rightarrow> 'c \<Rightarrow> string" where
  "Category_getId s c = c_id (cat_obj s c)"


definition Area_getId :: "('c, 'a) store \<Rightarrow> 'a \<Rightarrow> string" where
  "Area_getId s a = a_id (area_obj s a)"


definition Category_getQuartiles :: "('c, 'a) store \<Rightarrow> 'c \<Rightarrow> string list" where
  "Category_getQuartiles s c = odict_keys (c_quartiles (cat_obj s c))"

definition Category_getAreas :: "('c, 'a) store \<Rightarrow> 'c \<Rightarrow> 'a list" where
  "Category_getAreas s c = odict_values (c_areas (cat_obj s c))"

definition Area_getCategories :: "('c, 'a) store \<Rightarrow> 'a \<Rightarrow> 'c list" where
  "Area_getCategories s a = odict_values (a_categories (area_obj s a))"

fun Category_addQuartile :: "'c \<Rightarrow> string option \<Rightarrow> ('c, 'a) store \<Rightarrow> ('c, 'a) store" where
  "Category_addQuartile c None s = s"
| "Category_addQuartile c (Some quartile) s =
     (if quartile \<noteq> [] then
        (let quartile_clean = strip quartile in
         if quartile_clean \<noteq> [] then
           s\<lparr>cat_obj := (cat_obj s)
               (c := (cat_obj s c)\<lparr>c_quartiles :=
                        setdefault quartile_clean True (c_quartiles (cat_obj s c))\<rparr>)\<rparr>
         else s)
      else s)"

fun Category_link_area :: "'c \<Rightarrow> 'a option \<Rightarrow> ('c, 'a) store \<Rightarrow> ('c, 'a) store" where
  "Category_link_area c None s = s"
| "Category_link_area c (Some a) s =
     (if Area_getId s a \<noteq> [] then
        s\<lparr>cat_obj := (cat_obj s)
            (c := (cat_obj s c)\<lparr>c_areas := setdefault (Area_getId s a) a (c_areas (cat_obj s c))\<rparr>)\<rparr>
      else s)"

fun Area_link_category :: "'a \<Rightarrow> 'c option \<Rightarrow> ('c, 'a) store \<Rightarrow> ('c, 'a) store" where
  "Area_link_category a None s = s"
| "Area_link_category a (Some c) s =
     (if Category_getId s c \<noteq> [] then
        s\<lparr>area_obj := (area_obj s)
            (a := (area_obj s a)\<lparr>a_categories :=
                     setdefault (Category_getId s c) c (a_categories (area_obj s a))\<rparr>)\<rparr>
      else s)"

fun Category_addArea :: "'c \<Rightarrow> 'a option \<Rightarrow> ('c, 'a) store \<Rightarrow> ('c, 'a) store" where
  "Category_addArea c None s = s"
| "Category_addArea c (Some a) s =
     (if Area_getId s a \<noteq> [] then
        Area_link_category a (Some c) (Category_link_area c (Some a) s)
      else s)"

fun Area_addCategory :: "'a \<Rightarrow> 'c option \<Rightarrow> ('c, 'a) store \<Rightarrow> ('c, 'a) store" where
  "Area_addCategory a None s = s"
| "Area_addCategory a (Some c) s =
     (if Category_getId s c \<noteq> [] then
        Area_link_category a (Some c) (Category_link_area c (Some a) s)
      else s)"

text \<open>
  A sequence of \<open>addArea\<close>/\<open>addCategory\<close> calls on freshly constructed objects: object
  \<open>c\<close> was built by \<open>Category(cid c)\<close> and object \<open>a\<close> by \<open>Area(aid a)\<close>.
\<close>

datatype ('c, 'a) link_call = AddArea 'c "'a option" | AddCategory 'a "'c option"

fun exec_call :: "('c, 'a) link_call \<Rightarrow> ('c, 'a) store \<Rightarrow> ('c, 'a) store" where
  "exec_call (AddArea c a) s = Category_addArea c a s"
| "exec_call (AddCategory a c) s = Area_addCategory a c s"

fun run_calls :: "('c, 'a) link_call list \<Rightarrow> ('c, 'a) store \<Rightarrow> ('c, 'a) store" where
  "run_calls [] s = s"
| "run_calls (x # xs) s = run_calls xs (exec_call x s)"

definition fresh_store :: "('c \<Rightarrow> string option) \<Rightarrow> ('a \<Rightarrow> string option) \<Rightarrow> ('c, 'a) store" where
  "fresh_store cid aid = \<lparr>cat_obj = (\<lambda>c. Category (cid c)), area_obj = (\<lambda>a. Area (aid a))\<rparr>"


record ('c, 'a) journal =
  j_id :: string
  j_name :: string
  j_title :: string
  j_print_issn :: string
  j_electronic_issn :: string
  j_publisher :: string
  j_languages :: "string list"
  j_license :: string
  j_has_apc :: bool
  j_has_doaj_seal :: bool
  j_categories :: "(string, 'c) odict"
  j_areas :: "(string, 'a) odict"

definition Journal ::
  "string option \<Rightarrow> string option \<Rightarrow> string option \<Rightarrow> string option \<Rightarrow> string option \<Rightarrow>
   string list option \<Rightarrow> string option \<Rightarrow> bool \<Rightarrow> bool \<Rightarrow> ('c, 'a) journal" where
  "Journal identifier title print_issn electronic_issn publisher languages license has_apc has_doaj_seal =
     \<lparr>j_id = clean identifier, j_name = clean title, j_title = clean title,
      j_print_issn = clean print_issn, j_electronic_issn = clean electronic_issn,
      j_publisher = clean publisher,
      j_languages = map strip (filter (\<lambda>lang. lang \<noteq> [] \<and> strip lang \<noteq> [])
                                  (case languages of None \<Rightarrow> [] | Some ls \<Rightarrow> ls)),
      j_license = clean license, j_has_apc = has_apc, j_has_doaj_seal = has_doaj_seal,
      j_categories = [], j_areas = []\<rparr>"

fun Journal_addCategory ::
  "('c, 'a) store \<Rightarrow> 'c option \<Rightarrow> ('c, 'a) journal \<Rightarrow> ('c, 'a) journal" where
  "Journal_addCategory s None j = j"
| "Journal_addCategory s (Some category) j =
     (if Category_getId s category \<noteq> [] then
        j\<lparr>j_categories := setdefault (Category_getId s category) category (j_categories j)\<rparr>
      else j)"

fun Journal_addArea ::
  "('c, 'a) store \<Rightarrow> 'a option \<Rightarrow> ('c, 'a) journal \<Rightarrow> ('c, 'a) journal" where
  "Journal_addArea s None j = j"
| "Journal_addArea s (Some area) j =
     (if Area_getId s area \<noteq> [] then
        j\<lparr>j_areas := setdefault (Area_getId s area) area (j_areas j)\<rparr>
      else j)"

definition Journal_getCategories :: "('c, 'a) journal \<Rightarrow> 'c list" where
  "Journal_getCategories j = odict_values (j_categories j)"

definition Journal_getAreas :: "('c, 'a) journal \<Rightarrow> 'a list" where
  "Journal_getAreas j = odict_values (j_areas j)"

section \<open>Tabular results and handlers (query_handlers.py, repositories.py)\<close>

text \<open>
  A journal table has the fixed row schema of \<open>JournalQueryHandler.COLUMNS\<close>: every
  frame built in this repository has exactly these ten columns (\<open>_empty_frame\<close>,
  \<open>pd.DataFrame(columns=COLUMNS)\<close>, and the frames of the store, whose records come from
  \<open>load_csv\<close>).  So a frame is its list of rows, each with one cell per column of the
  schema, and \<open>columns\<close> of every frame is \<open>COLUMNS\<close>; the tests that the engine makes on
  the columns (\<open>frame.empty\<close>, \<open>"id" in combined.columns\<close>, \<open>df["apc"]\<close>) are kept as
  they are written.  A cell that is \<open>None\<close> is \<open>None\<close>.  A table with other columns is
  not a value of this type.
\<close>

record row =
  r_id :: "string option"
  r_title :: "string option"
  r_print_issn :: "string option"
  r_electronic_issn :: "string option"
  r_languages :: "string list option"
  r_publisher :: "string option"
  r_doaj_seal :: "bool option"
  r_license :: "string option"
  r_apc :: "bool option"
  r_identifiers :: "string list option"

record frame =
  rows :: "row list"

definition COLUMNS :: "string list" where
  "COLUMNS = [''id'', ''title'', ''print_issn'', ''electronic_issn'', ''languages'',
              ''publisher'', ''doaj_seal'', ''license'', ''apc'', ''identifiers'']"

definition columns :: "frame \<Rightarrow> string list" where
  "columns f = COLUMNS"

definition empty_frame :: frame where
  "empty_frame = \<lparr>rows = []\<rparr>"

definition frame_empty :: "frame \<Rightarrow> bool" where
  "frame_empty f = (rows f = [] \<or> columns f = [])"

definition loc :: "(row \<Rightarrow> bool) \<Rightarrow> frame \<Rightarrow> frame" where
  "loc keep f = f\<lparr>rows := filter keep (rows f)\<rparr>"

definition or_empty :: "'x list option \<Rightarrow> 'x list" where
  "or_empty v = (case v of None \<Rightarrow> [] | Some xs \<Rightarrow> xs)"

definition replace_hyphen :: "string \<Rightarrow> string" where
  "replace_hyphen s = filter (\<lambda>c. c \<noteq> CHR ''-'') s"

definition norm :: "string \<Rightarrow> string" where
  "norm s = normalise_identifier (Some s)"

text \<open>The request sets \<open>{_normalise_identifier(x) for x in xs or [] if x}\<close>.\<close>

definition requested :: "string list option \<Rightarrow> string set" where
  "requested xs = set (map norm (filter (\<lambda>x. x \<noteq> []) (or_empty xs)))"

text \<open>
  The in-memory journal store.  Its records always carry the ten keys of \<open>COLUMNS\<close>
  (see \<open>load_csv\<close>), so the store is its list of rows and its frames have those columns.
  \<open>Series.str.contains(pat, case=False, na=False)\<close> belongs to pandas and is the
  parameter \<open>contains\<close>.
\<close>

record journal_store =
  st_rows :: "row list"
  st_index :: "(string, string) odict"

definition store_all :: "journal_store \<Rightarrow> frame" where
  "store_all st = \<lparr>rows = st_rows st\<rparr>"

definition falsy :: "string option \<Rightarrow> bool" where
  "falsy v = (v = None \<or> v = Some [])"

definition by_identifier :: "journal_store \<Rightarrow> string option \<Rightarrow> frame" where
  "by_identifier st identifier =
     (case identifier of
        None \<Rightarrow> empty_frame
      | Some i \<Rightarrow>
          if i = [] then empty_frame
          else
            (let target = map_of (st_index st) (norm i);
                 target = (if falsy target then map_of (st_index st) (norm (replace_hyphen i))
                           else target);
                 frame = loc (\<lambda>r. r_id r = target) (store_all st)
             in if \<not> falsy target \<and> rows frame \<noteq> [] then frame
                else
                  (let result = loc (\<lambda>r. \<exists>x \<in> set (or_empty (r_identifiers r)). norm i = norm x)
                                   (store_all st)
                   in if rows result \<noteq> [] then result else empty_frame)))"

definition by_title :: "(string \<Rightarrow> string \<Rightarrow> bool) \<Rightarrow> journal_store \<Rightarrow> string option \<Rightarrow> frame" where
  "by_title contains st title_part =
     (let frame = store_all st in
      case title_part of
        None \<Rightarrow> frame
      | Some part \<Rightarrow>
          if part = [] then frame
          else loc (\<lambda>r. case r_title r of None \<Rightarrow> False | Some t \<Rightarrow> contains part t) frame)"

definition by_publisher :: "(string \<Rightarrow> string \<Rightarrow> bool) \<Rightarrow> journal_store \<Rightarrow> string option \<Rightarrow> frame" where
  "by_publisher contains st publisher_part =
     (let frame = store_all st in
      case publisher_part of
        None \<Rightarrow> frame
      | Some part \<Rightarrow>
          if part = [] then frame
          else loc (\<lambda>r. case r_publisher r of None \<Rightarrow> False | Some t \<Rightarrow> contains part t) frame)"

definition by_license :: "journal_store \<Rightarrow> string list option \<Rightarrow> frame" where
  "by_license st licenses =
     (let frame = store_all st; license_norm = requested licenses in
      if license_norm = {} then frame
      else loc (\<lambda>r. case r_license r of None \<Rightarrow> False | Some v \<Rightarrow> norm v \<in> license_norm) frame)"

definition with_apc :: "journal_store \<Rightarrow> frame" where
  "with_apc st = loc (\<lambda>r. r_apc r = Some True) (store_all st)"

definition with_doaj_seal :: "journal_store \<Rightarrow> frame" where
  "with_doaj_seal st = loc (\<lambda>r. r_doaj_seal r = Some True) (store_all st)"

text \<open>
  The engine reaches a handler only through \<open>getattr(handler, method_name, None)\<close> and a
  call of the result, so a journal handler is the record of what each named method
  returns: \<open>NotCallable\<close> when the attribute is missing or not callable, \<open>NotAFrame\<close>
  when the value returned is no \<open>DataFrame\<close>.  \<open>jh_oid\<close> is the identity of the object.
\<close>

datatype response = NotCallable | NotAFrame | Frame frame

record journal_handler =
  jh_oid :: nat
  jh_getById :: "string option \<Rightarrow> response"
  jh_getAllJournals :: response
  jh_getJournalsWithTitle :: "string option \<Rightarrow> response"
  jh_getJournalsPublishedBy :: "string option \<Rightarrow> response"
  jh_getJournalsWithLicense :: "string list option \<Rightarrow> response"
  jh_getJournalsWithAPC :: response
  jh_getJournalsWithDOAJSeal :: response

text \<open>
  The class \<open>JournalQueryHandler\<close> over its repository (\<open>None\<close> before
  \<open>setDbPathOrUrl\<close>); \<open>SparqlJournalRepository.fetch_*\<close> forwards to the store.
\<close>

definition JournalQueryHandler ::
  "(string \<Rightarrow> string \<Rightarrow> bool) \<Rightarrow> nat \<Rightarrow> journal_store option \<Rightarrow> journal_handler" where
  "JournalQueryHandler contains oid repo =
     \<lparr>jh_oid = oid,
      jh_getById = (\<lambda>identifier. Frame (case repo of None \<Rightarrow> empty_frame
                                        | Some st \<Rightarrow> by_identifier st identifier)),
      jh_getAllJournals = Frame (case repo of None \<Rightarrow> empty_frame | Some st \<Rightarrow> store_all st),
      jh_getJournalsWithTitle = (\<lambda>title_part. Frame (case repo of None \<Rightarrow> empty_frame
                                        | Some st \<Rightarrow> by_title contains st title_part)),
      jh_getJournalsPublishedBy = (\<lambda>publisher_part. Frame (case repo of None \<Rightarrow> empty_frame
                                        | Some st \<Rightarrow> by_publisher contains st publisher_part)),
      jh_getJournalsWithLicense = (\<lambda>licenses. Frame (case repo of None \<Rightarrow> empty_frame
                                        | Some st \<Rightarrow> by_license st licenses)),
      jh_getJournalsWithAPC = Frame (case repo of None \<Rightarrow> empty_frame | Some st \<Rightarrow> with_apc st),
      jh_getJournalsWithDOAJSeal =
        Frame (case repo of None \<Rightarrow> empty_frame | Some st \<Rightarrow> with_doaj_seal st)\<rparr>"

text \<open>
  The taxonomy export of a category repository (\<open>export_all\<close>).  A Python set is the
  list of its elements in iteration order, without repetition.
\<close>

record category_export =
  ce_quartiles :: "string list"
  ce_areas :: "string list"

record export =
  ex_categories :: "(string, category_export) odict"
  ex_areas :: "(string, string list) odict"
  ex_journal_categories :: "(string, (string, string list) odict) odict"
  ex_journal_areas :: "(string, string list) odict"
  ex_journal_alias :: "(string, string) odict"

text \<open>
  A category handler: its identity and its repository, given by what
  \<open>repository.export_all()\<close> returns (\<open>None\<close>: no repository).
\<close>

record category_handler =
  ch_oid :: nat
  ch_repository :: "export option"


section \<open>The query engine (engine.py)\<close>

record engine =
  journalQuery :: "journal_handler list"
  categoryQuery :: "category_handler list"


subsection \<open>Handler management\<close>

definition cleanJournalHandlers :: "engine \<Rightarrow> bool \<times> engine" where
  "cleanJournalHandlers e = (True, e\<lparr>journalQuery := []\<rparr>)"

definition cleanCategoryHandlers :: "engine \<Rightarrow> bool \<times> engine" where
  "cleanCategoryHandlers e = (True, e\<lparr>categoryQuery := []\<rparr>)"



subsection \<open>Fan-out merge of journal frames\<close>

text \<open>
  \<open>call\<close> stands for \<open>getattr(handler, method_name)(*args)\<close>.  The loop keeps the frames
  that are \<open>DataFrame\<close>s and not empty, in handler order.
\<close>

fun surviving_frames :: "(journal_handler \<Rightarrow> response) \<Rightarrow> journal_handler list \<Rightarrow> frame list" where
  "surviving_frames call [] = []"
| "surviving_frames call (handler # hs) =
     (case call handler of
        Frame frame \<Rightarrow>
          (if \<not> frame_empty frame then frame # surviving_frames call hs
           else surviving_frames call hs)
      | _ \<Rightarrow> surviving_frames call hs)"

text \<open>
  \<open>pd.concat(frames, ignore_index=True)\<close>.  All the frames have the columns of the schema,
  so these are the columns of the result, no cell is added, and the rows are the rows of
  the frames, in order.
\<close>

definition pd_concat :: "frame list \<Rightarrow> frame" where
  "pd_concat frames = \<lparr>rows = concat (map rows frames)\<rparr>"

text \<open>\<open>drop_duplicates(subset="id", keep="first")\<close>; \<open>seen\<close> holds the ids already kept.\<close>

fun drop_duplicates_id :: "string option list \<Rightarrow> row list \<Rightarrow> row list" where
  "drop_duplicates_id seen [] = []"
| "drop_duplicates_id seen (r # rs) =
     (if r_id r \<in> set seen then drop_duplicates_id seen rs
      else r # drop_duplicates_id (r_id r # seen) rs)"

definition collect_journal_frames :: "(journal_handler \<Rightarrow> response) \<Rightarrow> engine \<Rightarrow> frame" where
  "collect_journal_frames call e =
     (let frames = surviving_frames call (journalQuery e) in
      if frames = [] then empty_frame
      else
        (let combined = pd_concat frames in
         if ''id'' \<in> set (columns combined)
         then combined\<lparr>rows := drop_duplicates_id [] (rows combined)\<rparr>
         else combined))"

subsection \<open>Merging the taxonomy exports\<close>

definition set_update :: "'x list \<Rightarrow> 'x list \<Rightarrow> 'x list" where
  "set_update xs ys = foldl (\<lambda>acc y. if y \<in> set acc then acc else acc @ [y]) xs ys"

text \<open>
  \<open>record = d.setdefault(k, default)\<close> followed by an in-place change \<open>f\<close> of \<open>record\<close>.
\<close>

definition update_entry :: "'k \<Rightarrow> 'v \<Rightarrow> ('v \<Rightarrow> 'v) \<Rightarrow> ('k, 'v) odict \<Rightarrow> ('k, 'v) odict" where
  "update_entry k dflt f d =
     (if k \<in> fst ` set d then map (\<lambda>(k', v). if k' = k then (k', f v) else (k', v)) d
      else d @ [(k, f dflt)])"

definition empty_export :: export where
  "empty_export = \<lparr>ex_categories = [], ex_areas = [], ex_journal_categories = [],
                    ex_journal_areas = [], ex_journal_alias = []\<rparr>"

definition merge_export :: "export \<Rightarrow> export \<Rightarrow> export" where
  "merge_export combined ex =
     \<lparr>ex_categories =
        foldl (\<lambda>d (cid, data).
                 update_entry cid \<lparr>ce_quartiles = [], ce_areas = []\<rparr>
                   (\<lambda>record. record\<lparr>ce_quartiles := set_update (ce_quartiles record) (ce_quartiles data),
                                     ce_areas := set_update (ce_areas record) (ce_areas data)\<rparr>) d)
              (ex_categories combined) (ex_categories ex),
      ex_areas =
        foldl (\<lambda>d (aid, categories). update_entry aid [] (\<lambda>record. set_update record categories) d)
              (ex_areas combined) (ex_areas ex),
      ex_journal_categories =
        foldl (\<lambda>d (jid, data).
                 update_entry jid []
                   (\<lambda>journal_record.
                      foldl (\<lambda>jr (cid, quartiles).
                               update_entry cid [] (\<lambda>qs. set_update qs quartiles) jr)
                            journal_record data) d)
              (ex_journal_categories combined) (ex_journal_categories ex),
      ex_journal_areas =
        foldl (\<lambda>d (jid, areas). update_entry jid [] (\<lambda>record. set_update record areas) d)
              (ex_journal_areas combined) (ex_journal_areas ex),
      ex_journal_alias =
        foldl (\<lambda>d (alias_norm, canonical). setdefault alias_norm canonical d)
              (ex_journal_alias combined) (ex_journal_alias ex)\<rparr>"

fun merge_exports :: "export \<Rightarrow> category_handler list \<Rightarrow> export" where
  "merge_exports combined [] = combined"
| "merge_exports combined (handler # hs) =
     (case ch_repository handler of
        None \<Rightarrow> merge_exports combined hs
      | Some export \<Rightarrow> merge_exports (merge_export combined export) hs)"

definition collect_category_exports :: "engine \<Rightarrow> export" where
  "collect_category_exports e = merge_exports empty_export (categoryQuery e)"

subsection \<open>Building the taxonomy\<close>

text \<open>
  Every Category object that \<open>_build_taxonomy\<close> keeps is the value of \<open>category_map\<close>
  under one key, and likewise for areas, so the key serves as the object's reference:
  \<open>category_map\<close> maps a key to the reference of the object stored under it.
\<close>

record taxonomy =
  category_map :: "(string, string) odict"
  area_map :: "(string, string) odict"
  objs :: "(string, string) store"

definition empty_taxonomy :: taxonomy where
  "empty_taxonomy =
     \<lparr>category_map = [], area_map = [],
      objs = \<lparr>cat_obj = (\<lambda>_. Category None), area_obj = (\<lambda>_. Area None)\<rparr>\<rparr>"

text \<open>\<open>category_map.setdefault(cid, Category(cid))\<close> and \<open>area_map.setdefault(aid, Area(aid))\<close>.\<close>

definition setdefault_category :: "string \<Rightarrow> taxonomy \<Rightarrow> string \<times> taxonomy" where
  "setdefault_category cid t =
     (case map_of (category_map t) cid of
        Some category \<Rightarrow> (category, t)
      | None \<Rightarrow>
          (cid, t\<lparr>category_map := category_map t @ [(cid, cid)],
                  objs := (objs t)\<lparr>cat_obj := (cat_obj (objs t))(cid := Category (Some cid))\<rparr>\<rparr>))"

definition setdefault_area :: "string \<Rightarrow> taxonomy \<Rightarrow> string \<times> taxonomy" where
  "setdefault_area aid t =
     (case map_of (area_map t) aid of
        Some area \<Rightarrow> (area, t)
      | None \<Rightarrow>
          (aid, t\<lparr>area_map := area_map t @ [(aid, aid)],
                  objs := (objs t)\<lparr>area_obj := (area_obj (objs t))(aid := Area (Some aid))\<rparr>\<rparr>))"

definition build_category :: "taxonomy \<Rightarrow> string \<times> category_export \<Rightarrow> taxonomy" where
  "build_category t entry =
     (case entry of (cid, data) \<Rightarrow>
        (case setdefault_category cid t of (category, t) \<Rightarrow>
           foldl (\<lambda>t quartile. t\<lparr>objs := Category_addQuartile category (Some quartile) (objs t)\<rparr>)
                 t (ce_quartiles data)))"

definition build_area :: "taxonomy \<Rightarrow> string \<times> string list \<Rightarrow> taxonomy" where
  "build_area t entry =
     (case entry of (aid, categories) \<Rightarrow>
        (case setdefault_area aid t of (area, t) \<Rightarrow>
           foldl (\<lambda>t cid.
                    (case setdefault_category cid t of (category, t) \<Rightarrow>
                       t\<lparr>objs := Category_addArea category (Some area) (objs t)\<rparr>))
                 t categories))"

definition build_taxonomy :: "engine \<Rightarrow> taxonomy" where
  "build_taxonomy e =
     (let exports = collect_category_exports e;
          t = foldl build_category empty_taxonomy (ex_categories exports)
      in foldl build_area t (ex_areas exports))"


subsection \<open>Hydrating journal objects\<close>

definition dict_get :: "('k, 'v) odict \<Rightarrow> 'k \<Rightarrow> 'v \<Rightarrow> 'v" where
  "dict_get d k dflt = (case map_of d k of None \<Rightarrow> dflt | Some v \<Rightarrow> v)"

definition journal_of_row :: "row \<Rightarrow> (string, string) journal" where
  "journal_of_row record =
     Journal (r_id record) (r_title record) (r_print_issn record) (r_electronic_issn record)
       (r_publisher record) (Some (or_empty (r_languages record))) (r_license record)
       (case r_apc record of None \<Rightarrow> False | Some b \<Rightarrow> b)
       (case r_doaj_seal record of None \<Rightarrow> False | Some b \<Rightarrow> b)"

text \<open>
  The alias lookup of one identifier: its normalised form first, then the normalised form
  of the identifier without hyphens; an empty canonical id counts as no match.
\<close>

definition resolve_alias :: "(string, string) odict \<Rightarrow> string \<Rightarrow> string option" where
  "resolve_alias alias_map identifier =
     (let canonical = map_of alias_map (norm identifier);
          canonical = (if falsy canonical then map_of alias_map (norm (replace_hyphen identifier))
                       else canonical)
      in if falsy canonical then None else canonical)"

definition attach_categories ::
  "taxonomy \<Rightarrow> export \<Rightarrow> string \<Rightarrow> (string, string) journal \<Rightarrow> (string, string) journal" where
  "attach_categories t exports canonical journal =
     foldl (\<lambda>j category_id.
              case map_of (category_map t) category_id of
                None \<Rightarrow> j
              | Some category \<Rightarrow> Journal_addCategory (objs t) (Some category) j)
           journal (odict_keys (dict_get (ex_journal_categories exports) canonical []))"

definition attach_areas ::
  "taxonomy \<Rightarrow> export \<Rightarrow> string \<Rightarrow> (string, string) journal \<Rightarrow> (string, string) journal" where
  "attach_areas t exports canonical journal =
     foldl (\<lambda>j area_id.
              case map_of (area_map t) area_id of
                None \<Rightarrow> j
              | Some area \<Rightarrow> Journal_addArea (objs t) (Some area) j)
           journal (dict_get (ex_journal_areas exports) canonical [])"

text \<open>The loop over the identifiers of one row; it has no \<open>break\<close>.\<close>

fun hydrate_identifiers ::
  "taxonomy \<Rightarrow> export \<Rightarrow> string list \<Rightarrow> (string, string) journal \<Rightarrow> (string, string) journal" where
  "hydrate_identifiers t exports [] journal = journal"
| "hydrate_identifiers t exports (identifier # rest) journal =
     (case resolve_alias (ex_journal_alias exports) identifier of
        None \<Rightarrow> hydrate_identifiers t exports rest journal
      | Some canonical \<Rightarrow>
          hydrate_identifiers t exports rest
            (attach_areas t exports canonical (attach_categories t exports canonical journal)))"

definition row_identifiers :: "row \<Rightarrow> string list" where
  "row_identifiers record = filter (\<lambda>identifier. identifier \<noteq> []) (or_empty (r_identifiers record))"

definition hydrate_row :: "taxonomy \<Rightarrow> export \<Rightarrow> row \<Rightarrow> (string, string) journal" where
  "hydrate_row t exports record =
     hydrate_identifiers t exports (row_identifiers record) (journal_of_row record)"

definition build_journal_objects :: "engine \<Rightarrow> frame option \<Rightarrow> (string, string) journal list" where
  "build_journal_objects e frame =
     (case frame of
        None \<Rightarrow> []
      | Some f \<Rightarrow>
          if frame_empty f then []
          else map (hydrate_row (build_taxonomy e) (collect_category_exports e)) (rows f))"

subsection \<open>Public operations of the basic engine\<close>





definition getAllJournals :: "engine \<Rightarrow> (string, string) journal list" where
  "getAllJournals e =
     build_journal_objects e (Some (collect_journal_frames (\<lambda>h. jh_getAllJournals h) e))"

definition getJournalsWithTitle :: "engine \<Rightarrow> string option \<Rightarrow> (string, string) journal list" where
  "getJournalsWithTitle e title_part =
     build_journal_objects e
       (Some (collect_journal_frames (\<lambda>h. jh_getJournalsWithTitle h title_part) e))"





definition getAllCategories :: "engine \<Rightarrow> string list" where
  "getAllCategories e = odict_values (category_map (build_taxonomy e))"


definition quartiles_norm :: "(string, string) store \<Rightarrow> string \<Rightarrow> string set" where
  "quartiles_norm s category = set (map norm (Category_getQuartiles s category))"

definition getCategoriesWithQuartile :: "engine \<Rightarrow> string list option \<Rightarrow> string list" where
  "getCategoriesWithQuartile e quartiles =
     (let target = requested quartiles in
      filter (\<lambda>category.
                target = {} \<or> quartiles_norm (objs (build_taxonomy e)) category \<inter> target \<noteq> {})
             (getAllCategories e))"



subsection \<open>The full engine\<close>

datatype error = KeyError string

definition journal_dataframe :: "engine \<Rightarrow> frame" where
  "journal_dataframe e = collect_journal_frames (\<lambda>h. jh_getAllJournals h) e"


definition areas_norm :: "(string, string) store \<Rightarrow> (string, string) journal \<Rightarrow> string set" where
  "areas_norm s journal = set (map (\<lambda>area. norm (Area_getId s area)) (Journal_getAreas journal))"

text \<open>The loop over the categories of one journal, left at the first match.\<close>

fun category_match :: "string set \<Rightarrow> string set \<Rightarrow> (string \<times> string set) list \<Rightarrow> bool" where
  "category_match requested_categories requested_quartiles [] = False"
| "category_match requested_categories requested_quartiles ((category_id, quartile_set) # rest) =
     (let cat_ok = (requested_categories = {} \<or> category_id \<in> requested_categories);
          quart_ok = (requested_quartiles = {} \<or> quartile_set \<inter> requested_quartiles \<noteq> {})
      in if cat_ok \<and> quart_ok then True
         else category_match requested_categories requested_quartiles rest)"

definition categories_norm ::
  "(string, string) store \<Rightarrow> (string, string) journal \<Rightarrow> (string \<times> string set) list" where
  "categories_norm s journal =
     map (\<lambda>category. (norm (Category_getId s category), quartiles_norm s category))
         (Journal_getCategories journal)"



definition getDiamondJournalsInAreasAndCategoriesWithQuartile ::
  "engine \<Rightarrow> string list option \<Rightarrow> string list option \<Rightarrow> string list option
   \<Rightarrow> error + (string, string) journal list" where
  "getDiamondJournalsInAreasAndCategoriesWithQuartile e areas categories quartiles =
     (let requested_areas = requested areas;
          requested_categories = requested categories;
          requested_quartiles = requested quartiles;
          df = journal_dataframe e
      in if ''apc'' \<notin> set (columns df) then Inl (KeyError ''apc'')
         else
           (let df = loc (\<lambda>r. r_apc r = Some False) df;
                journals = build_journal_objects e (Some df);
                s = objs (build_taxonomy e)
            in Inr (filter (\<lambda>journal.
                              \<not> (requested_areas \<noteq> {} \<and> areas_norm s journal \<inter> requested_areas = {})
                              \<and> category_match requested_categories requested_quartiles
                                   (categories_norm s journal))
                           journals)))"


section \<open>Specification predicates and example data\<close>

text \<open>
  The link invariant behind the mutual Category/Area relation: identifiers are the ones
  given by \<open>ci\<close> and \<open>ai\<close>, every entry is filed under the identifier of the object it
  holds, and every entry has its mirror entry on the other side.
\<close>

definition links_agree :: "('c \<Rightarrow> string) \<Rightarrow> ('a \<Rightarrow> string) \<Rightarrow> ('c, 'a) store \<Rightarrow> bool" where
  "links_agree ci ai s =
     ((\<forall>c. c_id (cat_obj s c) = ci c) \<and> (\<forall>a. a_id (area_obj s a) = ai a) \<and>
      (\<forall>c k a. (k, a) \<in> set (c_areas (cat_obj s c)) \<longrightarrow>
           k = ai a \<and> (ci c, c) \<in> set (a_categories (area_obj s a))) \<and>
      (\<forall>a k c. (k, c) \<in> set (a_categories (area_obj s a)) \<longrightarrow>
           k = ci c \<and> (ai a, a) \<in> set (c_areas (cat_obj s c))))"

text \<open>Two objects of each kind, addressed by \<open>True\<close> and \<open>False\<close>.\<close>

definition distinct_cids :: "bool \<Rightarrow> string option" where
  "distinct_cids c = Some (if c then ''c1'' else ''c2'')"

definition distinct_aids :: "bool \<Rightarrow> string option" where
  "distinct_aids a = Some (if a then ''a1'' else ''a2'')"

definition shared_aids :: "bool \<Rightarrow> string option" where
  "shared_aids a = Some ''x''"

definition blank_cids :: "bool \<Rightarrow> string option" where
  "blank_cids c = (if c then Some ''c1'' else Some [])"





text \<open>Example rows, exports and engines.\<close>

definition mk_row :: "string \<Rightarrow> bool \<Rightarrow> string list \<Rightarrow> row" where
  "mk_row i apc ids =
     \<lparr>r_id = Some i, r_title = None, r_print_issn = None, r_electronic_issn = None,
      r_languages = None, r_publisher = None, r_doaj_seal = Some False, r_license = None,
      r_apc = Some apc, r_identifiers = Some ids\<rparr>"

definition store_handler :: "nat \<Rightarrow> row list \<Rightarrow> journal_handler" where
  "store_handler oid rs =
     JournalQueryHandler (\<lambda>_ _. False) oid (Some \<lparr>st_rows = rs, st_index = []\<rparr>)"

definition diamond_export :: export where
  "diamond_export =
     \<lparr>ex_categories = [(''C1'', \<lparr>ce_quartiles = [''Q1''], ce_areas = [''bio'']\<rparr>)],
      ex_areas = [(''bio'', [''C1''])],
      ex_journal_categories = [(''A'', [(''C1'', [''Q1''])])],
      ex_journal_areas = [(''A'', [''bio'']), (''B'', [''bio''])],
      ex_journal_alias = [(''a'', ''A''), (''b'', ''B'')]\<rparr>"

definition diamond_engine :: engine where
  "diamond_engine =
     \<lparr>journalQuery = [store_handler 0 [mk_row ''A'' False [''A''], mk_row ''B'' True [''B'']]],
      categoryQuery = [\<lparr>ch_oid = 0, ch_repository = Some diamond_export\<rparr>]\<rparr>"

definition conflict_export :: export where
  "conflict_export =
     \<lparr>ex_categories = [(''C1'', \<lparr>ce_quartiles = [''Q1''], ce_areas = [''bio'']\<rparr>),
                       (''C2'', \<lparr>ce_quartiles = [''Q2''], ce_areas = [''geo'']\<rparr>)],
      ex_areas = [(''bio'', [''C1'']), (''geo'', [''C2''])],
      ex_journal_categories = [(''J1'', [(''C1'', [''Q1''])]), (''J2'', [(''C2'', [''Q2''])])],
      ex_journal_areas = [(''J1'', [''bio'']), (''J2'', [''geo''])],
      ex_journal_alias = [(''15206149'', ''J1''), (''sometitle'', ''J2'')]\<rparr>"

definition conflict_row :: row where
  "conflict_row = mk_row ''10.1/x'' False [''1520-6149'', ''Some Title'']"

definition conflict_engine :: engine where
  "conflict_engine =
     \<lparr>journalQuery = [store_handler 0 [conflict_row]],
      categoryQuery = [\<lparr>ch_oid = 0, ch_repository = Some conflict_export\<rparr>]\<rparr>"

definition unknown_row :: row where
  "unknown_row = mk_row ''10.9/z'' False [''9999-0000'']"

definition two_source_engine :: engine where
  "two_source_engine =
     \<lparr>journalQuery = [store_handler 0 [mk_row ''X'' False [''X'']],
                      store_handler 1 [mk_row ''Y'' False [''Y''], mk_row ''X'' True [''X'']]],
      categoryQuery = []\<rparr>"




definition unknown_frame :: frame where
  "unknown_frame = \<lparr>rows = [conflict_row, unknown_row]\<rparr>"

section \<open>Properties of the identifier normaliser\<close>

lemma in_class_lower_fix: "in_class c \<Longrightarrow> lower_char c = c"
  by (auto simp: in_class_def lower_char_def Let_def)

lemma space_lower: "is_space c \<Longrightarrow> \<not> in_class (lower_char c)"
  by (auto simp: in_class_def lower_char_def is_space_def Let_def)

lemma class_after_dropWhile:
  "filter in_class (map lower_char (dropWhile is_space xs)) = filter in_class (map lower_char xs)"
  by (induction xs) (auto simp: space_lower)

lemma class_after_strip:
  "filter in_class (map lower_char (strip xs)) = filter in_class (map lower_char xs)"
proof -
  have "rev (filter in_class (map lower_char (strip xs)))
      = filter in_class (map lower_char (dropWhile is_space (rev (dropWhile is_space xs))))"
    by (simp add: strip_def rev_filter rev_map)
  also have "\<dots> = filter in_class (map lower_char (rev (dropWhile is_space xs)))"
    by (rule class_after_dropWhile)
  also have "\<dots> = rev (filter in_class (map lower_char (dropWhile is_space xs)))"
    by (simp add: rev_filter rev_map)
  also have "\<dots> = rev (filter in_class (map lower_char xs))"
    by (simp add: class_after_dropWhile)
  finally show ?thesis by simp
qed

lemma normalise_Some:
  "normalise_identifier (Some s) = filter in_class (map lower_char s)"
  by (simp add: lower_def re_sub_outside_class_def class_after_strip)

lemma normalise_in_class: "list_all in_class (normalise_identifier v)"
proof (cases v)
  case None
  then show ?thesis by simp
next
  case (Some s)
  then show ?thesis unfolding Some normalise_Some by (simp add: list_all_iff)
qed

lemma class_fixed: "list_all in_class xs \<Longrightarrow> filter in_class (map lower_char xs) = xs"
  by (induction xs) (auto simp: in_class_lower_fix)

lemma normalise_idem:
  "normalise_identifier (Some (normalise_identifier v)) = normalise_identifier v"
  using class_fixed[OF normalise_in_class] normalise_Some by metis

lemma norm_replace_hyphen: "norm (replace_hyphen s) = norm s"
  unfolding norm_def replace_hyphen_def normalise_Some
  by (induction s) (auto simp: in_class_def lower_char_def Let_def)

lemma cp_class_not_space: "cp_in_class n \<Longrightarrow> \<not> cp_is_space sb n"
  by (auto simp: cp_in_class_def cp_is_space_def)

lemma cp_strip_class: "list_all cp_in_class xs \<Longrightarrow> cp_strip sb xs = xs"
proof -
  assume a: "list_all cp_in_class xs"
  have d: "list_all cp_in_class ys \<Longrightarrow> dropWhile (cp_is_space sb) ys = ys" for ys
    by (cases ys) (auto simp: cp_class_not_space)
  from a have "list_all cp_in_class (rev xs)" by (simp add: list_all_iff)
  with a d show ?thesis by (simp add: cp_strip_def)
qed

lemma cp_lower_class: "list_all cp_in_class xs \<Longrightarrow> cp_lower lb pre xs = xs"
  by (induction xs arbitrary: pre) (auto simp: cp_in_class_def)

lemma cp_normalise_in_class: "list_all cp_in_class (normalise_code_points sb lb v)"
  by (cases v) (simp_all add: list_all_iff)

lemma cp_normalise_idem:
  "normalise_code_points sb lb (Some (normalise_code_points sb lb v)) = normalise_code_points sb lb v"
proof -
  let ?r = "normalise_code_points sb lb v"
  have c: "list_all cp_in_class ?r" by (rule cp_normalise_in_class)
  have "filter cp_in_class ?r = ?r" using c by (simp add: list_all_iff)
  then show ?thesis by (simp add: cp_strip_class[OF c] cp_lower_class[OF c])
qed

lemma cp_lower_ascii:
  "list_all (\<lambda>n. n < 128) xs \<Longrightarrow>
   cp_lower lb pre xs = map (\<lambda>n. if 65 \<le> n \<and> n \<le> 90 then n + 32 else n) xs"
  by (induction xs arbitrary: pre) auto

lemma cp_filter_dropWhile:
  "filter P (dropWhile Q xs) = filter P xs" if "\<And>x. Q x \<Longrightarrow> \<not> P x"
  using that by (induction xs) auto

lemma cp_filter_strip:
  assumes "\<And>x. cp_is_space sb x \<Longrightarrow> \<not> P x"
  shows "filter P (cp_strip sb xs) = filter P xs"
proof -
  have "rev (filter P (cp_strip sb xs)) = filter P (dropWhile (cp_is_space sb) (rev (dropWhile (cp_is_space sb) xs)))"
    by (simp add: cp_strip_def rev_filter)
  also have "\<dots> = filter P (rev (dropWhile (cp_is_space sb) xs))"
    using assms by (rule cp_filter_dropWhile)
  also have "\<dots> = rev (filter P (dropWhile (cp_is_space sb) xs))" by (simp add: rev_filter)
  also have "\<dots> = rev (filter P xs)" using assms by (simp add: cp_filter_dropWhile)
  finally show ?thesis by simp
qed

lemma cp_strip_ascii: "list_all (\<lambda>n. n < 128) xs \<Longrightarrow> list_all (\<lambda>n. n < 128) (cp_strip sb xs)"
proof -
  have "set (cp_strip sb xs) \<subseteq> set xs"
    unfolding cp_strip_def by (auto dest!: set_dropWhileD)
  then show "list_all (\<lambda>n. n < 128) xs \<Longrightarrow> list_all (\<lambda>n. n < 128) (cp_strip sb xs)"
    by (auto simp: list_all_iff)
qed

lemma cp_normalise_ascii:
  "normalise_code_points sb lb (Some (filter (\<lambda>n. n < 128) s))
     = map (\<lambda>n. if 65 \<le> n \<and> n \<le> 90 then n + 32 else n)
         (filter (\<lambda>n. (48 \<le> n \<and> n \<le> 57) \<or> (65 \<le> n \<and> n \<le> 90) \<or> (97 \<le> n \<and> n \<le> 122)) s)"
proof -
  let ?a = "filter (\<lambda>n. n < 128) s"
  let ?low = "\<lambda>n::nat. if 65 \<le> n \<and> n \<le> 90 then n + 32 else n"
  let ?keep = "\<lambda>n::nat. (48 \<le> n \<and> n \<le> 57) \<or> (65 \<le> n \<and> n \<le> 90) \<or> (97 \<le> n \<and> n \<le> 122)"
  have asc: "list_all (\<lambda>n. n < 128) ?a" by (simp add: list_all_iff)
  have "normalise_code_points sb lb (Some ?a)
          = filter cp_in_class (map ?low (cp_strip sb ?a))"
    by (simp add: cp_lower_ascii[OF cp_strip_ascii[OF asc]])
  also have "\<dots> = map ?low (filter ?keep (cp_strip sb ?a))"
    by (simp add: filter_map o_def cp_in_class_def)
       (rule arg_cong[where f = "map ?low"], rule filter_cong, auto)
  also have "filter ?keep (cp_strip sb ?a) = filter ?keep ?a"
    by (rule cp_filter_strip) (auto simp: cp_is_space_def split: if_splits)
  also have "filter ?keep ?a = filter ?keep s"
    by (simp, rule filter_cong, auto)
  finally show ?thesis .
qed

lemma of_char_lt: "(of_char (c::char) :: nat) < 256"
  by (metis of_char_mod_256 mod_less_divisor zero_less_numeral)


lemma of_char_lower_char:
  "(of_char (lower_char c) :: nat)
     = (let n = of_char c in
        if (65 \<le> n \<and> n \<le> 90) \<or> (192 \<le> n \<and> n \<le> 222 \<and> n \<noteq> 215) then n + 32 else n)"
  by (auto simp: lower_char_def Let_def)

lemma cp_lower_latin1:
  "cp_lower latin1_lower pre (map of_char s) = map of_char (map lower_char s)"
  using of_char_lt
  by (induction s arbitrary: pre)
     (auto simp: of_char_lower_char latin1_lower_def Let_def)

lemma is_space_code_point: "is_space c \<longleftrightarrow> cp_is_space latin1_space (of_char c)"
  by (auto simp: is_space_def cp_is_space_def latin1_space_def Let_def)

lemma strip_code_points: "map of_char (strip s) = cp_strip latin1_space (map of_char s)"
proof -
  have d: "map of_char (dropWhile is_space xs)
        = dropWhile (cp_is_space latin1_space) (map of_char xs)" for xs :: string
  proof -
    have "is_space = (\<lambda>c. cp_is_space latin1_space (of_char c))"
      by (rule ext) (rule is_space_code_point)
    then show ?thesis by (simp add: dropWhile_map o_def)
  qed
  show ?thesis
    unfolding strip_def cp_strip_def by (simp add: rev_map d flip: rev_map[of of_char])
qed

lemma in_class_code_point: "in_class c \<longleftrightarrow> cp_in_class (of_char c)"
  by (simp add: in_class_def cp_in_class_def Let_def)

lemma normalise_identifier_code_points:
  "code_points (normalise_identifier (Some s))
     = normalise_code_points latin1_space latin1_lower (Some (code_points s))"
proof -
  have "map of_char (filter in_class (map lower_char (strip s)))
          = filter cp_in_class (map of_char (map lower_char (strip s)))"
    by (simp add: filter_map o_def in_class_code_point)
  also have "\<dots> = filter cp_in_class (cp_lower latin1_lower [] (map of_char (strip s)))"
    by (simp add: cp_lower_latin1)
  finally show ?thesis
    by (simp add: code_points_def re_sub_outside_class_def lower_def strip_code_points)
qed

lemma in_class_lower_char:
  "in_class (lower_char c)
     \<longleftrightarrow> (48 \<le> (of_char c :: nat) \<and> (of_char c :: nat) \<le> 57)
          \<or> (65 \<le> (of_char c :: nat) \<and> (of_char c :: nat) \<le> 90)
          \<or> (97 \<le> (of_char c :: nat) \<and> (of_char c :: nat) \<le> 122)"
  unfolding in_class_code_point of_char_lower_char cp_in_class_def Let_def
  using of_char_lt[of c] by auto

lemma normalise_letters:
  "normalise_identifier (Some s)
     = map (\<lambda>c. if 65 \<le> (of_char c :: nat) \<and> (of_char c :: nat) \<le> 90
                then char_of ((of_char c :: nat) + 32) else c)
         (filter (\<lambda>c. (48 \<le> (of_char c :: nat) \<and> (of_char c :: nat) \<le> 57)
                       \<or> (65 \<le> (of_char c :: nat) \<and> (of_char c :: nat) \<le> 90)
                       \<or> (97 \<le> (of_char c :: nat) \<and> (of_char c :: nat) \<le> 122)) s)"
  unfolding normalise_Some
  by (induction s) (auto simp: in_class_lower_char, auto simp: lower_char_def Let_def)

text \<open>
  C5: \<open>_normalise_identifier\<close> returns the empty string for \<open>None\<close> and for the empty
  string.  On a string it trims, lower-cases and keeps exactly the characters of
  \<open>[0-9a-z]\<close>; the trimming changes nothing that the deletion would not.  Said without the
  model's own functions: the digits and the letters \<open>a\<close>..\<open>z\<close> and \<open>A\<close>..\<open>Z\<close> are kept, in
  order, with \<open>A\<close>..\<open>Z\<close> replaced by \<open>a\<close>..\<open>z\<close>, and everything else is deleted.  The
  result consists of characters of the class only, the normaliser is idempotent, the
  four spellings of the ISSN \<open>1234-5678\<close> all normalise to \<open>12345678\<close>, and mixed-case
  text is lower-cased.  The same holds on arbitrary code points, whatever the Unicode
  tables say beyond U+007F: the result lies in the class, the normaliser is idempotent,
  and on text below U+0080 it is the explicit function above; the normaliser on
  \<^typ>\<open>string\<close> is the one on code points at the tables for the code points below U+0100.
\<close>

theorem normalise_identifier_spec:
  "normalise_identifier None = []
   \<and> normalise_identifier (Some []) = []
   \<and> normalise_identifier (Some s) = filter in_class (lower (strip s))
   \<and> normalise_identifier (Some s) = filter in_class (lower s)
   \<and> list_all in_class (normalise_identifier v)
   \<and> normalise_identifier (Some (normalise_identifier v)) = normalise_identifier v
   \<and> normalise_identifier (Some ''1234-5678'') = ''12345678''
   \<and> normalise_identifier (Some ''1234 5678'') = ''12345678''
   \<and> normalise_identifier (Some ''12345678'') = ''12345678''
   \<and> normalise_identifier (Some '' 1234-5678 '') = ''12345678''
   \<and> normalise_identifier (Some s)
       = map (\<lambda>c. if 65 \<le> (of_char c :: nat) \<and> (of_char c :: nat) \<le> 90
                  then char_of ((of_char c :: nat) + 32) else c)
           (filter (\<lambda>c. (48 \<le> (of_char c :: nat) \<and> (of_char c :: nat) \<le> 57)
                         \<or> (65 \<le> (of_char c :: nat) \<and> (of_char c :: nat) \<le> 90)
                         \<or> (97 \<le> (of_char c :: nat) \<and> (of_char c :: nat) \<le> 122)) s)
   \<and> normalise_identifier (Some ''AbC-1'') = ''abc1''
   \<and> normalise_identifier (Some '' The Lancet: Oncology '') = ''thelancetoncology''
   \<and> normalise_identifier (Some ''ISSN 1234-567X'') = ''issn1234567x''
   \<and> normalise_identifier (Some ''ABCDEFGHIJKLMNOPQRSTUVWXYZ'') = ''abcdefghijklmnopqrstuvwxyz''
   \<and> code_points (normalise_identifier (Some s))
       = normalise_code_points latin1_space latin1_lower (Some (code_points s))
   \<and> normalise_code_points space_beyond lower_beyond None = []
   \<and> normalise_code_points space_beyond lower_beyond (Some []) = []
   \<and> list_all cp_in_class (normalise_code_points space_beyond lower_beyond w)
   \<and> normalise_code_points space_beyond lower_beyond
         (Some (normalise_code_points space_beyond lower_beyond w))
       = normalise_code_points space_beyond lower_beyond w
   \<and> normalise_code_points space_beyond lower_beyond (Some (filter (\<lambda>n. n < 128) u))
       = map (\<lambda>n. if 65 \<le> n \<and> n \<le> 90 then n + 32 else n)
           (filter (\<lambda>n. (48 \<le> n \<and> n \<le> 57) \<or> (65 \<le> n \<and> n \<le> 90) \<or> (97 \<le> n \<and> n \<le> 122)) u)
   \<and> normalise_code_points (\<lambda>n. n = 8195) (\<lambda>pre n post. if n = 8490 then [107] else [n])
         (Some [8195, 8490, 65, 45, 49, 233, 8195])
       = [107, 97, 49]"
proof -
  have e1: "normalise_identifier (Some ''1234-5678'') = ''12345678''" by code_simp
  have e2: "normalise_identifier (Some ''1234 5678'') = ''12345678''" by code_simp
  have e3: "normalise_identifier (Some ''12345678'') = ''12345678''" by code_simp
  have e4: "normalise_identifier (Some '' 1234-5678 '') = ''12345678''" by code_simp
  have e5: "normalise_identifier (Some ''AbC-1'') = ''abc1''" by code_simp
  have e6: "normalise_identifier (Some '' The Lancet: Oncology '') = ''thelancetoncology''"
    by code_simp
  have e7: "normalise_identifier (Some ''ISSN 1234-567X'') = ''issn1234567x''" by code_simp
  have e8: "normalise_identifier (Some ''ABCDEFGHIJKLMNOPQRSTUVWXYZ'') = ''abcdefghijklmnopqrstuvwxyz''"
    by code_simp
  have e9: "normalise_code_points (\<lambda>n. n = 8195) (\<lambda>pre n post. if n = 8490 then [107] else [n])
         (Some [8195, 8490, 65, 45, 49, 233, 8195]) = [107, 97, 49]"
    by (simp add: cp_strip_def cp_is_space_def cp_in_class_def)
  have a: "normalise_identifier (Some s) = filter in_class (lower (strip s))"
    by (simp add: re_sub_outside_class_def)
  have b: "normalise_identifier (Some s) = filter in_class (lower s)"
    unfolding lower_def by (rule normalise_Some)
  have c: "normalise_identifier (Some []) = []" unfolding normalise_Some by simp
  have g1: "normalise_code_points space_beyond lower_beyond None = []" by simp
  have g2: "normalise_code_points space_beyond lower_beyond (Some []) = []"
    by (simp add: cp_strip_def)
  note facts = e1 e2 e3 e4 e5 e6 e7 e8 e9 a b c g1 g2 normalise_in_class[of v] normalise_idem[of v]
    normalise_letters[of s] normalise_identifier_code_points[of s]
    cp_normalise_in_class[of space_beyond lower_beyond w]
    cp_normalise_idem[of space_beyond lower_beyond w]
    cp_normalise_ascii[of space_beyond lower_beyond u]
  show ?thesis
    by (intro conjI) (rule facts normalise_identifier.simps(1))+
qed

section \<open>The mutual Category/Area link\<close>

lemma links_agree_fresh:
  "links_agree (\<lambda>c. clean (cid c)) (\<lambda>a. clean (aid a)) (fresh_store cid aid)"
  by (simp add: links_agree_def fresh_store_def Category_def Area_def)

lemma link_both:
  assumes inv: "links_agree ci ai s" and ic: "inj ci" and ia: "inj ai"
    and nc: "ci c \<noteq> []" and na: "ai a \<noteq> []"
  shows "links_agree ci ai (Area_link_category a (Some c) (Category_link_area c (Some a) s))"
proof -
  from inv have idc: "\<And>c. c_id (cat_obj s c) = ci c" and ida: "\<And>a. a_id (area_obj s a) = ai a"
    and fw: "\<And>c k a. (k, a) \<in> set (c_areas (cat_obj s c)) \<Longrightarrow>
           k = ai a \<and> (ci c, c) \<in> set (a_categories (area_obj s a))"
    and bw: "\<And>a k c. (k, c) \<in> set (a_categories (area_obj s a)) \<Longrightarrow>
           k = ci c \<and> (ai a, a) \<in> set (c_areas (cat_obj s c))"
    unfolding links_agree_def by blast+
  show ?thesis
  proof (cases "ai a \<in> fst ` set (c_areas (cat_obj s c))")
    case True
    then obtain a' where m: "(ai a, a') \<in> set (c_areas (cat_obj s c))" by force
    from fw[OF m] ia have "a' = a" by (auto dest: injD)
    with m fw have "(ci c, c) \<in> set (a_categories (area_obj s a))" by blast
    then have "ci c \<in> fst ` set (a_categories (area_obj s a))" by force
    with True have "Area_link_category a (Some c) (Category_link_area c (Some a) s) = s"
      using nc na by (simp add: Area_getId_def Category_getId_def ida idc setdefault_def)
    with inv show ?thesis by simp
  next
    case False
    have absent: "ci c \<notin> fst ` set (a_categories (area_obj s a))"
    proof
      assume "ci c \<in> fst ` set (a_categories (area_obj s a))"
      then obtain c' where m: "(ci c, c') \<in> set (a_categories (area_obj s a))" by force
      from bw[OF m] ic have "c' = c" by (auto dest: injD)
      with m bw have "(ai a, a) \<in> set (c_areas (cat_obj s c))" by blast
      with False show False by force
    qed
    have eq: "Area_link_category a (Some c) (Category_link_area c (Some a) s)
       = s\<lparr>cat_obj := (cat_obj s)(c := (cat_obj s c)\<lparr>c_areas := c_areas (cat_obj s c) @ [(ai a, a)]\<rparr>),
            area_obj := (area_obj s)(a := (area_obj s a)\<lparr>a_categories :=
                            a_categories (area_obj s a) @ [(ci c, c)]\<rparr>)\<rparr>"
      using nc na False absent
      by (simp add: Area_getId_def Category_getId_def ida idc setdefault_def)
    show ?thesis unfolding eq links_agree_def
      using idc ida fw bw by (auto split: if_splits)
  qed
qed

lemma exec_call_agree:
  assumes inv: "links_agree ci ai s" and ic: "inj ci" and ia: "inj ai"
    and nc: "\<And>c. ci c \<noteq> []" and na: "\<And>a. ai a \<noteq> []"
  shows "links_agree ci ai (exec_call x s)"
proof -
  from inv have idc: "\<And>c. c_id (cat_obj s c) = ci c" and ida: "\<And>a. a_id (area_obj s a) = ai a"
    unfolding links_agree_def by blast+
  show ?thesis
  proof (cases x)
    case (AddArea c ao)
    then show ?thesis using inv link_both[OF inv ic ia nc na]
      by (cases ao) (simp_all add: Area_getId_def ida na)
  next
    case (AddCategory a co)
    then show ?thesis using inv link_both[OF inv ic ia nc na]
      by (cases co) (simp_all add: Category_getId_def idc nc)
  qed
qed

lemma run_calls_agree:
  assumes ic: "inj ci" and ia: "inj ai"
    and nc: "\<And>c. ci c \<noteq> []" and na: "\<And>a. ai a \<noteq> []"
  shows "links_agree ci ai s \<Longrightarrow> links_agree ci ai (run_calls xs s)"
  by (induction xs arbitrary: s) (simp_all add: exec_call_agree[OF _ ic ia nc na])

lemma links_agree_mutual:
  assumes "links_agree ci ai s"
  shows "a \<in> set (Category_getAreas s c) \<longleftrightarrow> c \<in> set (Area_getCategories s a)"
  using assms unfolding links_agree_def Category_getAreas_def Area_getCategories_def odict_values_def
  by (auto simp: image_iff) (metis snd_conv)+

lemmas link_eval =
  fresh_store_def Category_def Area_def clean_def strip_def is_space_def
  Area_getId_def Category_getId_def setdefault_def Category_getAreas_def
  Area_getCategories_def odict_values_def

text \<open>
  C2 (as amended): when every Category and every Area has a non-empty identifier and
  distinct objects of one kind have distinct identifiers, then after any finite sequence
  of \<open>Category.addArea\<close> and \<open>Area.addCategory\<close> calls on freshly constructed objects,
  area \<open>a\<close> is among the areas of category \<open>c\<close> if and only if \<open>c\<close> is among the
  categories of \<open>a\<close>.
\<close>

theorem link_mutual_for_distinct_ids:
  assumes "inj (\<lambda>c. clean (cid c))" and "inj (\<lambda>a. clean (aid a))"
    and "\<forall>c. clean (cid c) \<noteq> []" and "\<forall>a. clean (aid a) \<noteq> []"
  shows "a \<in> set (Category_getAreas (run_calls calls (fresh_store cid aid)) c)
         \<longleftrightarrow> c \<in> set (Area_getCategories (run_calls calls (fresh_store cid aid)) a)"
proof -
  have "links_agree (\<lambda>c. clean (cid c)) (\<lambda>a. clean (aid a)) (run_calls calls (fresh_store cid aid))"
    using assms by (intro run_calls_agree links_agree_fresh) auto
  then show ?thesis by (rule links_agree_mutual)
qed

theorem link_mutual_for_distinct_ids_witness:
  "inj (\<lambda>c. clean (distinct_cids c)) \<and> inj (\<lambda>a. clean (distinct_aids a))
   \<and> (\<forall>c. clean (distinct_cids c) \<noteq> []) \<and> (\<forall>a. clean (distinct_aids a) \<noteq> [])
   \<and> False \<in> set (Category_getAreas
        (run_calls [AddArea True (Some True), AddCategory False (Some True)]
           (fresh_store distinct_cids distinct_aids)) True)
   \<and> True \<in> set (Area_getCategories
        (run_calls [AddArea True (Some True), AddCategory False (Some True)]
           (fresh_store distinct_cids distinct_aids)) False)"
proof -
  have i1: "inj (\<lambda>c. clean (distinct_cids c))"
    by (rule injI) (simp add: distinct_cids_def clean_def strip_def is_space_def split: if_splits)
  have i2: "inj (\<lambda>a. clean (distinct_aids a))"
    by (rule injI) (simp add: distinct_aids_def clean_def strip_def is_space_def split: if_splits)
  have n1: "\<forall>c. clean (distinct_cids c) \<noteq> []"
    by (simp add: distinct_cids_def clean_def strip_def is_space_def)
  have n2: "\<forall>a. clean (distinct_aids a) \<noteq> []"
    by (simp add: distinct_aids_def clean_def strip_def is_space_def)
  have m: "False \<in> set (Category_getAreas
        (run_calls [AddArea True (Some True), AddCategory False (Some True)]
           (fresh_store distinct_cids distinct_aids)) True)"
    by (simp add: link_eval distinct_cids_def distinct_aids_def)
  from m link_mutual_for_distinct_ids[OF i1 i2 n1 n2,
      of False "[AddArea True (Some True), AddCategory False (Some True)]" True]
  show ?thesis using i1 i2 n1 n2 by blast
qed

text \<open>
  The claim as stated fails in two ways.  Two Area objects that share the identifier
  \<open>x\<close>: the second \<open>addArea\<close> leaves the category's entry for \<open>x\<close> as it is, yet
  registers the category on the second area.  A Category whose identifier is empty:
  \<open>addArea\<close> files the area under the category, and the area refuses the category.
\<close>

theorem link_mutual_counterexample:
  "True \<in> set (Area_getCategories
        (run_calls [AddArea True (Some True), AddArea True (Some False)]
           (fresh_store distinct_cids shared_aids)) False)
   \<and> False \<notin> set (Category_getAreas
        (run_calls [AddArea True (Some True), AddArea True (Some False)]
           (fresh_store distinct_cids shared_aids)) True)
   \<and> True \<in> set (Category_getAreas
        (run_calls [AddArea False (Some True)] (fresh_store blank_cids distinct_aids)) False)
   \<and> False \<notin> set (Area_getCategories
        (run_calls [AddArea False (Some True)] (fresh_store blank_cids distinct_aids)) True)"
  by (simp add: link_eval distinct_cids_def shared_aids_def blank_cids_def distinct_aids_def)

section \<open>Display names of taxonomy nodes\<close>














section \<open>Vacuous filters\<close>

text \<open>
  C6: for every engine, \<open>getCategoriesWithQuartile\<close> with an empty quartile collection
  (or with \<open>None\<close>) returns exactly the categories that \<open>getAllCategories\<close> returns.
\<close>

theorem empty_quartiles_all_categories:
  "getCategoriesWithQuartile e (Some []) = getAllCategories e
   \<and> getCategoriesWithQuartile e None = getAllCategories e"
  by (simp add: getCategoriesWithQuartile_def requested_def or_empty_def)

section \<open>Engines without data\<close>


lemma surviving_frames_cong:
  "(\<And>h. h \<in> set hs \<Longrightarrow> call h = call' h) \<Longrightarrow> surviving_frames call hs = surviving_frames call' hs"
  by (induction hs) (auto split: response.splits)






section \<open>The empty title fragment\<close>

text \<open>
  C10: for an engine whose journal handlers are \<open>JournalQueryHandler\<close>s over the
  in-memory store, \<open>getJournalsWithTitle\<close> with \<open>None\<close> or the empty string returns what
  \<open>getAllJournals\<close> returns.
\<close>

theorem empty_title_all_journals:
  assumes "\<forall>h \<in> set (journalQuery e). \<exists>oid repo. h = JournalQueryHandler contains oid repo"
  shows "getJournalsWithTitle e None = getAllJournals e
         \<and> getJournalsWithTitle e (Some []) = getAllJournals e"
proof -
  have "jh_getJournalsWithTitle h None = jh_getAllJournals h
        \<and> jh_getJournalsWithTitle h (Some []) = jh_getAllJournals h"
    if "h \<in> set (journalQuery e)" for h
  proof -
    from assms that obtain oid repo where "h = JournalQueryHandler contains oid repo" by blast
    then show ?thesis
      by (cases repo) (simp_all add: JournalQueryHandler_def by_title_def)
  qed
  then have "surviving_frames (\<lambda>h. jh_getJournalsWithTitle h None) (journalQuery e)
               = surviving_frames (\<lambda>h. jh_getAllJournals h) (journalQuery e)"
    and "surviving_frames (\<lambda>h. jh_getJournalsWithTitle h (Some [])) (journalQuery e)
               = surviving_frames (\<lambda>h. jh_getAllJournals h) (journalQuery e)"
    by (auto intro!: surviving_frames_cong)
  then show ?thesis
    by (simp add: getJournalsWithTitle_def getAllJournals_def collect_journal_frames_def)
qed

theorem empty_title_all_journals_witness:
  "getJournalsWithTitle two_source_engine (Some []) = getAllJournals two_source_engine
   \<and> getJournalsWithTitle two_source_engine None = getAllJournals two_source_engine
   \<and> map j_id (getAllJournals two_source_engine) = [''X'', ''Y'']"
proof -
  have h: "\<forall>h \<in> set (journalQuery two_source_engine).
             \<exists>oid repo. h = JournalQueryHandler (\<lambda>_ _. False) oid repo"
    by (auto simp: two_source_engine_def store_handler_def)
  have v: "map j_id (getAllJournals two_source_engine) = [''X'', ''Y'']" by code_simp
  from empty_title_all_journals[OF h] v show ?thesis by simp
qed

section \<open>The fan-out merge\<close>

lemma filter_drop_duplicates_id:
  "filter (\<lambda>r. r_id r = x) (drop_duplicates_id seen rs)
     = (if x \<in> set seen then []
        else case find (\<lambda>r. r_id r = x) rs of None \<Rightarrow> [] | Some r \<Rightarrow> [r])"
proof (induction rs arbitrary: seen)
  case Nil
  then show ?case by simp
next
  case (Cons r rs)
  then show ?case by (auto split: option.splits)
qed

lemma ids_drop_duplicates_id:
  "set (map r_id (drop_duplicates_id seen rs)) \<inter> set seen = {}
   \<and> distinct (map r_id (drop_duplicates_id seen rs))"
proof (induction rs arbitrary: seen)
  case Nil
  then show ?case by simp
next
  case (Cons r rs)
  from Cons.IH[of seen] Cons.IH[of "r_id r # seen"] show ?case by auto
qed

lemma surviving_frames_append:
  "surviving_frames call (xs @ ys) = surviving_frames call xs @ surviving_frames call ys"
  by (induction xs) (auto split: response.splits)

lemma surviving_frames_sound:
  "g \<in> set (surviving_frames call hs) \<Longrightarrow> \<exists>h \<in> set hs. call h = Frame g \<and> \<not> frame_empty g"
  by (induction hs) (auto split: response.splits if_splits)

lemma find_append_skip:
  "\<forall>r \<in> set xs. \<not> P r \<Longrightarrow> find P (xs @ ys) = find P ys"
  by (induction xs) auto

lemma find_append_hit:
  "find P xs = Some r \<Longrightarrow> find P (xs @ ys) = Some r"
  by (induction xs) (auto split: if_splits)

lemma id_column: "''id'' \<in> set (columns f)"
  by (simp add: columns_def COLUMNS_def)

text \<open>
  C3: let \<open>h\<close> be the earliest registered journal handler that returns a row with id
  \<open>x\<close> (no handler registered before it returns such a row), in a frame that has the
  \<open>id\<close> column, and let \<open>r\<close> be the first such row of its frame.  Then, whatever the
  later handlers return, the merged frame holds exactly one row with id \<open>x\<close>, namely
  \<open>r\<close>, and no id occurs twice in the merged frame.
\<close>

theorem merge_keeps_first_row:
  assumes split: "journalQuery e = hs1 @ h # hs2"
    and earlier: "\<forall>g \<in> set hs1. \<forall>fr. call g = Frame fr \<longrightarrow> x \<notin> r_id ` set (rows fr)"
    and ret: "call h = Frame f"
    and idcol: "''id'' \<in> set (columns f)"
    and first: "find (\<lambda>r. r_id r = x) (rows f) = Some r"
  shows "filter (\<lambda>r'. r_id r' = x) (rows (collect_journal_frames call e)) = [r]
         \<and> distinct (map r_id (rows (collect_journal_frames call e)))"
proof -
  let ?A = "surviving_frames call hs1" and ?B = "surviving_frames call hs2"
  from first have "rows f \<noteq> []" by auto
  moreover from idcol have "columns f \<noteq> []" by auto
  ultimately have ne: "\<not> frame_empty f" by (simp add: frame_empty_def)
  have frames: "surviving_frames call (journalQuery e) = ?A @ f # ?B"
    using ret ne by (simp add: split surviving_frames_append)
  have noA: "\<forall>r' \<in> set (concat (map rows ?A)). \<not> r_id r' = x"
  proof
    fix r' assume "r' \<in> set (concat (map rows ?A))"
    then obtain g where g: "g \<in> set ?A" and r': "r' \<in> set (rows g)" by auto
    from surviving_frames_sound[OF g] obtain h' where "h' \<in> set hs1" "call h' = Frame g" by blast
    with earlier have "x \<notin> r_id ` set (rows g)" by blast
    with r' show "\<not> r_id r' = x" by auto
  qed
  have found: "find (\<lambda>r. r_id r = x) (concat (map rows (?A @ f # ?B))) = Some r"
    using find_append_skip[OF noA] find_append_hit[OF first] by simp
  have idc: "''id'' \<in> set (columns (pd_concat (?A @ f # ?B)))"
    by (rule id_column)
  have rows_eq: "rows (collect_journal_frames call e)
                  = drop_duplicates_id [] (concat (map rows (?A @ f # ?B)))"
    using idc by (simp add: collect_journal_frames_def frames Let_def pd_concat_def)
  show ?thesis
    unfolding rows_eq
    using found ids_drop_duplicates_id[of "[]"] by (simp add: filter_drop_duplicates_id)
qed

theorem merge_keeps_first_row_witness:
  "filter (\<lambda>r'. r_id r' = Some ''X'') (rows (collect_journal_frames (\<lambda>h. jh_getAllJournals h) two_source_engine))
     = [mk_row ''X'' False [''X'']]
   \<and> distinct (map r_id (rows (collect_journal_frames (\<lambda>h. jh_getAllJournals h) two_source_engine)))
   \<and> map r_id (rows (collect_journal_frames (\<lambda>h. jh_getAllJournals h) two_source_engine))
       = [Some ''X'', Some ''Y'']"
proof -
  have s: "journalQuery two_source_engine
      = [] @ store_handler 0 [mk_row ''X'' False [''X'']]
           # [store_handler 1 [mk_row ''Y'' False [''Y''], mk_row ''X'' True [''X'']]]"
    by (simp add: two_source_engine_def)
  have e: "\<forall>g \<in> set []. \<forall>fr. jh_getAllJournals g = Frame fr \<longrightarrow> Some ''X'' \<notin> r_id ` set (rows fr)"
    by simp
  have r: "jh_getAllJournals (store_handler 0 [mk_row ''X'' False [''X'']])
            = Frame \<lparr>rows = [mk_row ''X'' False [''X'']]\<rparr>"
    by (simp add: store_handler_def JournalQueryHandler_def store_all_def)
  have c: "''id'' \<in> set (columns \<lparr>rows = [mk_row ''X'' False [''X'']]\<rparr>)"
    by (simp add: columns_def COLUMNS_def)
  have f: "find (\<lambda>r. r_id r = Some ''X'') (rows \<lparr>rows = [mk_row ''X'' False [''X'']]\<rparr>)
            = Some (mk_row ''X'' False [''X''])"
    by (simp add: mk_row_def)
  have v: "map r_id (rows (collect_journal_frames (\<lambda>h. jh_getAllJournals h) two_source_engine))
       = [Some ''X'', Some ''Y'']"
    by code_simp
  from merge_keeps_first_row[OF s e r c f] v show ?thesis by simp
qed

section \<open>Hydration of journal rows\<close>

lemma map_of_absent: "k \<notin> fst ` set d \<Longrightarrow> map_of d k = None"
  by (simp add: map_of_eq_None_iff)

lemma resolve_alias_absent:
  "norm i \<notin> fst ` set alias \<Longrightarrow> norm (replace_hyphen i) \<notin> fst ` set alias
   \<Longrightarrow> resolve_alias alias i = None"
  by (simp add: resolve_alias_def falsy_def map_of_absent)

lemma hydrate_identifiers_unresolved:
  "\<forall>i \<in> set ids. resolve_alias (ex_journal_alias ex) i = None
   \<Longrightarrow> hydrate_identifiers t ex ids j = j"
  by (induction ids) auto

lemma columns_collect_nonempty: "columns (collect_journal_frames call e) \<noteq> []"
  by (simp add: columns_def COLUMNS_def)

lemma build_journal_objects_map:
  "columns f \<noteq> [] \<Longrightarrow>
   build_journal_objects e (Some f)
     = map (hydrate_row (build_taxonomy e) (collect_category_exports e)) (rows f)"
  by (simp add: build_journal_objects_def frame_empty_def)

lemma journal_of_row_unlinked:
  "j_categories (journal_of_row r) = [] \<and> j_areas (journal_of_row r) = []"
  by (simp add: journal_of_row_def Journal_def)

text \<open>
  C8: for a frame with columns (every merged frame has some), the hydration returns one
  journal per row, in order; and for a row none of whose identifiers, normalised or
  normalised after hyphen removal, is a key of the merged alias map, the journal at the
  row's position is the journal built from the row's fields, with no category and no area.
\<close>

theorem unmatched_journal_is_kept:
  assumes cols: "columns f \<noteq> []" and n: "n < length (rows f)"
    and unmatched: "\<forall>i \<in> set (or_empty (r_identifiers (rows f ! n))).
            norm i \<notin> fst ` set (ex_journal_alias (collect_category_exports e))
            \<and> norm (replace_hyphen i) \<notin> fst ` set (ex_journal_alias (collect_category_exports e))"
  shows "length (build_journal_objects e (Some f)) = length (rows f)
         \<and> build_journal_objects e (Some f) ! n = journal_of_row (rows f ! n)
         \<and> Journal_getCategories (build_journal_objects e (Some f) ! n) = []
         \<and> Journal_getAreas (build_journal_objects e (Some f) ! n) = []
         \<and> columns (collect_journal_frames call e) \<noteq> []"
proof -
  have "\<forall>i \<in> set (row_identifiers (rows f ! n)).
          resolve_alias (ex_journal_alias (collect_category_exports e)) i = None"
    using unmatched by (auto simp: row_identifiers_def intro: resolve_alias_absent)
  then have h: "hydrate_row (build_taxonomy e) (collect_category_exports e) (rows f ! n)
                 = journal_of_row (rows f ! n)"
    unfolding hydrate_row_def by (rule hydrate_identifiers_unresolved)
  show ?thesis
    using n h columns_collect_nonempty[of call e]
    by (simp add: build_journal_objects_map[OF cols] journal_of_row_unlinked
        Journal_getCategories_def Journal_getAreas_def odict_values_def)
qed

theorem unmatched_journal_is_kept_witness:
  "length (build_journal_objects conflict_engine (Some unknown_frame)) = 2
   \<and> build_journal_objects conflict_engine (Some unknown_frame) ! 1 = journal_of_row unknown_row
   \<and> Journal_getCategories (build_journal_objects conflict_engine (Some unknown_frame) ! 1) = []
   \<and> Journal_getAreas (build_journal_objects conflict_engine (Some unknown_frame) ! 1) = []
   \<and> j_id (journal_of_row unknown_row) = ''10.9/z''"
proof -
  have c: "columns unknown_frame \<noteq> []" by (simp add: columns_def COLUMNS_def)
  have n: "(1::nat) < length (rows unknown_frame)" by (simp add: unknown_frame_def)
  have r: "rows unknown_frame ! 1 = unknown_row" by (simp add: unknown_frame_def)
  have a: "ex_journal_alias (collect_category_exports conflict_engine)
            = [(''15206149'', ''J1''), (''sometitle'', ''J2'')]"
    by code_simp
  have k1: "norm ''9999-0000'' = ''99990000''" by code_simp
  have k2: "norm (replace_hyphen ''9999-0000'') = ''99990000''" by code_simp
  have u: "\<forall>i \<in> set (or_empty (r_identifiers (rows unknown_frame ! 1))).
            norm i \<notin> fst ` set (ex_journal_alias (collect_category_exports conflict_engine))
            \<and> norm (replace_hyphen i) \<notin> fst ` set (ex_journal_alias (collect_category_exports conflict_engine))"
    unfolding r a by (simp add: unknown_row_def mk_row_def or_empty_def k1 k2)
  have i: "j_id (journal_of_row unknown_row) = ''10.9/z''" by code_simp
  have l: "length (rows unknown_frame) = 2" by (simp add: unknown_frame_def)
  note t = unmatched_journal_is_kept[OF c n u, where call = "\<lambda>h. jh_getAllJournals h", unfolded r l]
  from t i show ?thesis by blast
qed












section \<open>The diamond query\<close>

lemma category_match_iff:
  "category_match rc rq xs
     \<longleftrightarrow> (\<exists>x \<in> set xs. (rc = {} \<or> fst x \<in> rc) \<and> (rq = {} \<or> snd x \<inter> rq \<noteq> {}))"
  by (induction rc rq xs rule: category_match.induct) (auto simp: Let_def)

lemma columns_loc: "columns (loc keep f) = columns f"
  and rows_loc: "rows (loc keep f) = filter keep (rows f)"
  by (simp_all add: loc_def columns_def)

text \<open>
  C4: for every engine over frames of the row schema,
  \<open>getDiamondJournalsInAreasAndCategoriesWithQuartile\<close> raises nothing and returns, in row
  order, exactly the journals hydrated from the merged rows with \<open>apc = False\<close> whose
  normalised area ids meet the requested areas (no condition when the request set is empty) and which have a
  linked category whose normalised id is requested (no condition when no category is
  requested) and which has a normalised quartile among the requested ones (no condition
  when no quartile is requested).  The request sets hold the normalised non-empty entries
  and are empty for \<open>None\<close> and for the empty list.  On the example data (journal \<open>A\<close>
  without APC, journal \<open>B\<close> with APC, both in area \<open>bio\<close>, \<open>A\<close> in category \<open>C1\<close> with
  quartile \<open>Q1\<close>) the call with \<open>(["bio"], ["C1"], ["Q1"])\<close> returns journal \<open>A\<close> only.
\<close>

theorem diamond_query_characterisation:
  "getDiamondJournalsInAreasAndCategoriesWithQuartile e areas categories quartiles
           = Inr (map (hydrate_row (build_taxonomy e) (collect_category_exports e))
                  (filter
                     (\<lambda>r. r_apc r = Some False
                          \<and> (requested areas = {}
                              \<or> (\<exists>a \<in> set (Journal_getAreas
                                      (hydrate_row (build_taxonomy e) (collect_category_exports e) r)).
                                    norm (Area_getId (objs (build_taxonomy e)) a) \<in> requested areas))
                          \<and> (\<exists>c \<in> set (Journal_getCategories
                                      (hydrate_row (build_taxonomy e) (collect_category_exports e) r)).
                                (requested categories = {}
                                 \<or> norm (Category_getId (objs (build_taxonomy e)) c) \<in> requested categories)
                                \<and> (requested quartiles = {}
                                    \<or> (\<exists>q \<in> set (Category_getQuartiles (objs (build_taxonomy e)) c).
                                          norm q \<in> requested quartiles))))
                     (rows (journal_dataframe e))))
         \<and> requested None = {} \<and> requested (Some []) = {}
         \<and> map_sum id (map j_id)
              (getDiamondJournalsInAreasAndCategoriesWithQuartile diamond_engine
                 (Some [''bio'']) (Some [''C1'']) (Some [''Q1''])) = Inr [''A'']
         \<and> map j_id (getAllJournals diamond_engine) = [''A'', ''B'']"
proof -
  let ?H = "hydrate_row (build_taxonomy e) (collect_category_exports e)"
  let ?s = "objs (build_taxonomy e)"
  have apc: "''apc'' \<in> set (columns (journal_dataframe e))"
    by (simp add: columns_def COLUMNS_def)
  from apc have cols: "columns (loc (\<lambda>r. r_apc r = Some False) (journal_dataframe e)) \<noteq> []"
    by (auto simp: columns_loc)
  have built: "build_journal_objects e (Some (loc (\<lambda>r. r_apc r = Some False) (journal_dataframe e)))
                 = map ?H (filter (\<lambda>r. r_apc r = Some False) (rows (journal_dataframe e)))"
    by (simp add: build_journal_objects_map[OF cols] rows_loc)
  have area: "(requested areas \<noteq> {} \<and> areas_norm ?s j \<inter> requested areas = {})
               \<longleftrightarrow> \<not> (requested areas = {}
                       \<or> (\<exists>a \<in> set (Journal_getAreas j). norm (Area_getId ?s a) \<in> requested areas))" for j
    by (auto simp: areas_norm_def)
  have cat: "category_match (requested categories) (requested quartiles) (categories_norm ?s j)
               \<longleftrightarrow> (\<exists>c \<in> set (Journal_getCategories j).
                      (requested categories = {} \<or> norm (Category_getId ?s c) \<in> requested categories)
                      \<and> (requested quartiles = {}
                          \<or> (\<exists>q \<in> set (Category_getQuartiles ?s c). norm q \<in> requested quartiles)))" for j
    by (auto simp: category_match_iff categories_norm_def quartiles_norm_def)
  have main: "getDiamondJournalsInAreasAndCategoriesWithQuartile e areas categories quartiles
           = Inr (map ?H
                  (filter
                     (\<lambda>r. r_apc r = Some False
                          \<and> (requested areas = {}
                              \<or> (\<exists>a \<in> set (Journal_getAreas (?H r)).
                                    norm (Area_getId ?s a) \<in> requested areas))
                          \<and> (\<exists>c \<in> set (Journal_getCategories (?H r)).
                                (requested categories = {}
                                 \<or> norm (Category_getId ?s c) \<in> requested categories)
                                \<and> (requested quartiles = {}
                                    \<or> (\<exists>q \<in> set (Category_getQuartiles ?s c).
                                          norm q \<in> requested quartiles))))
                     (rows (journal_dataframe e))))"
    unfolding getDiamondJournalsInAreasAndCategoriesWithQuartile_def Let_def
    using apc by (simp add: built area cat filter_map o_def conj_commute conj_left_commute cong: conj_cong)
  have r1: "requested None = {}" and r2: "requested (Some []) = {}"
    by (simp_all add: requested_def or_empty_def)
  have ex: "map_sum id (map j_id)
              (getDiamondJournalsInAreasAndCategoriesWithQuartile diamond_engine
                 (Some [''bio'']) (Some [''C1'']) (Some [''Q1''])) = Inr [''A'']"
    by code_simp
  have all: "map j_id (getAllJournals diamond_engine) = [''A'', ''B'']" by code_simp
  from main r1 r2 ex all show ?thesis by blast
qed


theorem diamond_query_characterisation_witness:
  "map_sum id (map j_id)
     (getDiamondJournalsInAreasAndCategoriesWithQuartile diamond_engine (Some [''bio'']) None None)
     = Inr [''A'']
   \<and> map_sum id (map j_id)
     (getDiamondJournalsInAreasAndCategoriesWithQuartile diamond_engine None (Some [''C1'']) (Some [''Q2'']))
     = Inr []"
proof -
  note E1 = diamond_query_characterisation[where e = diamond_engine and areas = "Some [''bio'']"
      and categories = None and quartiles = None, THEN conjunct1]
  note E2 = diamond_query_characterisation[where e = diamond_engine and areas = None
      and categories = "Some [''C1'']" and quartiles = "Some [''Q2'']", THEN conjunct1]
  have a: "map_sum id (map j_id)
     (getDiamondJournalsInAreasAndCategoriesWithQuartile diamond_engine (Some [''bio'']) None None)
     = Inr [''A'']"
    unfolding E1 by code_simp
  have b: "map_sum id (map j_id)
     (getDiamondJournalsInAreasAndCategoriesWithQuartile diamond_engine None (Some [''C1'']) (Some [''Q2'']))
     = Inr []"
    unfolding E2 by code_simp
  from a b show ?thesis by simp
qed

end
